theory Spec2Isabelle
  imports Main
begin

section \<open>HTTP messages, Python values and the process\<close>

text \<open>
  The module under verification is \<^verbatim>\<open>Backend/source/main/app.py\<close>:
  \<^verbatim>\<open>
  from flask import Flask
  from source.main.config import create_app

  flask_app = create_app()


  @flask_app.route("/")
  def home_route():
      return "Hello World !"
  \<close>
  A request is what the server runner hands to the application: the method in upper
  case, the path as it was sent, without the query string (WSGI's \<^verbatim>\<open>PATH_INFO\<close>, which
  the router normalises itself), and the parts a view could read through the framework's
  request object (query string, headers, body). Requests are HTTP requests: the router's
  WebSocket mode, which it enters for the headers of a WebSocket upgrade handshake, is
  not modelled.
\<close>

record request =
  request_method :: string
  path :: string
  query_string :: string
  headers :: "(string \<times> string) list"
  body :: string



text \<open>
  A response object as the application hands it to the server runner: the status code and
  the body bytes. Response headers are not modelled, and neither is the server runner's
  writing of the response to the connection (for a HEAD request it sends the status and
  the headers of the response object and leaves the body out).
\<close>

datatype response = Response (status_code: nat) (data: string)

text \<open>
  The state of the operating-system process that Python code can read and write: the
  environment variables, the command line and the contents of the file system.
\<close>

record process =
  environ :: "string \<rightharpoonup> string"
  argv :: "string list"
  files :: "string \<rightharpoonup> string"

text \<open>
  The exceptions the modelled code can raise. \<open>NotFound\<close>, \<open>MethodNotAllowed\<close> and
  \<open>RequestRedirect\<close> are the router's HTTP exceptions, which the framework afterwards
  renders as its default error pages with status 404 and 405 and as a redirect with status
  308 to the path the exception carries; \<open>AssertionError\<close> is raised when an endpoint is
  bound a second time, \<open>KeyError\<close> when a rule names an endpoint that has no view function.
\<close>

datatype py_error =
  NotFound | MethodNotAllowed | RequestRedirect string | AssertionError | KeyError

text \<open>
  A call of Python code runs in a process, either raises or returns, and leaves a process
  state behind.
\<close>

type_synonym 'a action = "process \<Rightarrow> (py_error + 'a) \<times> process"

text \<open>
  What a view function may return to the framework: a string, or a finished response
  object. A view function is called while the request is the framework's current
  request, so it can read the request and the process although it takes no parameter.
\<close>

datatype rv = Str string | Resp response

type_synonym view_func = "request \<Rightarrow> rv action"

section \<open>The framework operations the module calls\<close>

text \<open>
  These definitions follow Flask and its router Werkzeug, the library the module imports;
  they are the meaning of \<^verbatim>\<open>flask_app.route("/")\<close> and of serving a request with the
  application object. A rule of the URL map: its path pattern, the methods it accepts,
  the endpoint it names and whether the framework answers OPTIONS by itself.
\<close>

record url_rule =
  pattern :: string
  methods :: "string set"
  endpoint :: string
  provide_automatic_options :: bool

record app =
  url_map :: "url_rule list"
  view_functions :: "string \<rightharpoonup> view_func"

text \<open>
  Werkzeug's \<^verbatim>\<open>Rule(string, methods=..., endpoint=...)\<close>: a rule that accepts GET accepts
  HEAD as well.
\<close>

definition Rule :: "string \<Rightarrow> string set \<Rightarrow> string \<Rightarrow> url_rule" where
  "Rule p ms e =
     \<lparr>pattern = p,
      methods = (if ''HEAD'' \<notin> ms \<and> ''GET'' \<in> ms then insert ''HEAD'' ms else ms),
      endpoint = e,
      provide_automatic_options = False\<rparr>"

text \<open>
  Flask's \<^verbatim>\<open>add_url_rule(rule, view_func=f, methods=None)\<close>, with the endpoint defaulting
  to the function's name (a Python function is given as its name and its callable).
  Without a method list the rule is for GET only; when OPTIONS is not among the
  methods, the framework adds it and marks the rule for its automatic OPTIONS answer.
  The rule is appended to the URL map and the function is bound to the endpoint.
  Binding an endpoint that is already bound raises (Flask tolerates binding the very same
  function object again; the module registers its one view once).
\<close>

definition add_url_rule ::
  "app \<Rightarrow> string \<Rightarrow> string \<times> view_func \<Rightarrow> string set option \<Rightarrow> py_error + app" where
  "add_url_rule a p f given =
     (let ep = fst f;
          ms = (case given of None \<Rightarrow> {''GET''} | Some ms' \<Rightarrow> ms');
          automatic = (''OPTIONS'' \<notin> ms);
          required_methods = (if automatic then {''OPTIONS''} else {});
          rule_obj = (Rule p (ms \<union> required_methods) ep)
                       \<lparr>provide_automatic_options := automatic\<rparr>
      in case view_functions a ep of
           Some old_func \<Rightarrow> Inl AssertionError
         | None \<Rightarrow>
             Inr (a\<lparr>url_map := url_map a @ [rule_obj],
                    view_functions := (view_functions a)(ep \<mapsto> snd f)\<rparr>))"

text \<open>
  The decorator \<^verbatim>\<open>@a.route(p)\<close> applied to a function: \<^verbatim>\<open>add_url_rule\<close> with no
  method list.
\<close>

definition route :: "app \<Rightarrow> string \<Rightarrow> string \<times> view_func \<Rightarrow> py_error + app" where
  "route a p f = add_url_rule a p f None"

text \<open>
  Werkzeug's router, for rules without variable parts and with the defaults of the URL
  map (strict slashes, merged slashes). \<^verbatim>\<open>MapAdapter.match\<close> first normalises the path:
  \<^verbatim>\<open>path_part = f"/{path_info.lstrip('/')}" if path_info else ""\<close>.
\<close>

definition path_part :: "string \<Rightarrow> string" where
  "path_part path_info =
     (if path_info = [] then [] else CHR ''/'' # dropWhile (\<lambda>c. c = CHR ''/'') path_info)"

text \<open>
  \<^verbatim>\<open>re.sub("/{2,}?", "/", path)\<close>: from left to right, each pair of slashes becomes one
  slash.
\<close>

fun merge_slashes :: "string \<Rightarrow> string" where
  "merge_slashes (a # b # cs) =
     (if a = CHR ''/'' \<and> b = CHR ''/''
      then CHR ''/'' # merge_slashes cs
      else a # merge_slashes (b # cs))"
| "merge_slashes cs = cs"

text \<open>
  The rules of the state that a path leads to are the rules whose pattern is that path.
  The matcher takes the first of them that accepts the method, and collects the methods
  of those that do not in \<^verbatim>\<open>have_match_for\<close>.
\<close>

fun match_state ::
  "url_rule list \<Rightarrow> string \<Rightarrow> string \<Rightarrow> string set \<Rightarrow> url_rule option \<times> string set" where
  "match_state [] p m have_match_for = (None, have_match_for)"
| "match_state (r # rs) p m have_match_for =
     (if pattern r = p
      then (if m \<in> methods r
            then (Some r, have_match_for)
            else match_state rs p m (have_match_for \<union> methods r))
      else match_state rs p m have_match_for)"

text \<open>
  One pass of the matcher over a path: a rule for the path itself; otherwise, when a rule
  for the path with one more slash at its end accepts the method, the matcher asks for
  that slash; otherwise nothing.
\<close>

datatype matched = Found url_rule | Slash_required | No_rule

definition match_path ::
  "url_rule list \<Rightarrow> string \<Rightarrow> string \<Rightarrow> string set \<Rightarrow> matched \<times> string set" where
  "match_path rs p m have_match_for =
     (case match_state rs p m have_match_for of
        (Some r, have) \<Rightarrow> (Found r, have)
      | (None, have) \<Rightarrow>
          if list_ex (\<lambda>r. pattern r = p @ ''/'' \<and> m \<in> methods r) rs
          then (Slash_required, have)
          else (No_rule, have))"

text \<open>
  The whole match. A rule found for the normalised path is the result. A required slash
  raises a redirect to the path with the slash. When the first pass finds nothing, a
  second pass runs on the path with its slashes merged, and whatever it finds raises a
  redirect to that path. When both passes find nothing, the router raises
  \<open>MethodNotAllowed\<close> if some rule matched a path but not the method, and \<open>NotFound\<close>
  otherwise.
\<close>

definition match_rules :: "url_rule list \<Rightarrow> string \<Rightarrow> string \<Rightarrow> py_error + url_rule" where
  "match_rules rs path_info m =
     (let p = path_part path_info in
      case match_path rs p m {} of
        (Found r, have) \<Rightarrow> Inr r
      | (Slash_required, have) \<Rightarrow> Inl (RequestRedirect (p @ ''/''))
      | (No_rule, have) \<Rightarrow>
          (let p' = merge_slashes p in
           case match_path rs p' m have of
             (Found r, have') \<Rightarrow> Inl (RequestRedirect p')
           | (Slash_required, have') \<Rightarrow> Inl (RequestRedirect (p' @ ''/''))
           | (No_rule, have') \<Rightarrow>
               Inl (if have' \<noteq> {} then MethodNotAllowed else NotFound)))"

definition match_request :: "app \<Rightarrow> request \<Rightarrow> py_error + url_rule" where
  "match_request a r = match_rules (url_map a) (path r) (request_method r)"

text \<open>
  Flask's \<^verbatim>\<open>dispatch_request\<close> in two steps. First what it decides to do with a request:
  raise the routing exception, answer OPTIONS automatically, or call the view function of
  the matched rule's endpoint.
\<close>

datatype target = Routing_exception py_error | Automatic_options | View string

definition dispatch_target :: "app \<Rightarrow> request \<Rightarrow> target" where
  "dispatch_target a r =
     (case match_request a r of
        Inl e \<Rightarrow> Routing_exception e
      | Inr rule_obj \<Rightarrow>
          if provide_automatic_options rule_obj \<and> request_method r = ''OPTIONS''
          then Automatic_options
          else View (endpoint rule_obj))"

text \<open>
  Then what it does: the automatic OPTIONS answer is an empty response with status 200,
  and a view function runs in the process with the request as the current request.
\<close>

definition dispatch_request :: "app \<Rightarrow> request \<Rightarrow> rv action" where
  "dispatch_request a r w =
     (case dispatch_target a r of
        Routing_exception e \<Rightarrow> (Inl e, w)
      | Automatic_options \<Rightarrow> (Inr (Resp (Response 200 [])), w)
      | View ep \<Rightarrow>
          (case view_functions a ep of
             None \<Rightarrow> (Inl KeyError, w)
           | Some f \<Rightarrow> f r w))"

text \<open>
  Flask's \<^verbatim>\<open>make_response\<close>: a string becomes the body of a response with the default
  status 200; a response object is passed on.
\<close>

definition make_response :: "rv \<Rightarrow> response" where
  "make_response v = (case v of Str s \<Rightarrow> Response 200 s | Resp resp \<Rightarrow> resp)"

text \<open>
  Flask's \<^verbatim>\<open>full_dispatch_request\<close> for an application without request hooks: dispatch,
  then make the response. An exception is left as it is (the framework's error pages are
  not modelled).
\<close>

definition full_dispatch_request :: "app \<Rightarrow> request \<Rightarrow> response action" where
  "full_dispatch_request a r w =
     (case dispatch_request a r w of
        (Inl e, w') \<Rightarrow> (Inl e, w')
      | (Inr v, w') \<Rightarrow> (Inr (make_response v), w'))"

section \<open>The App Factory\<close>

text \<open>
  Modelled from the spec: \<^verbatim>\<open>create_app\<close> is imported from \<^verbatim>\<open>source.main.config\<close>,
  which is not among the sources. The spec describes it as a function with no parameters
  that constructs and returns a ready-to-serve application instance with default
  framework behaviour, has no observable side effect other than returning the object,
  acquires no external resource and cannot fail. The model returns a fresh application
  object with no rule and no view function of its own, and leaves the process as it is.
\<close>

definition create_app :: "unit \<Rightarrow> app action" where
  "create_app u w = (Inr \<lparr>url_map = [], view_functions = Map.empty\<rparr>, w)"

section \<open>The module\<close>

text \<open>
  The Root Handler, lines 8 and 9: it takes no parameter, reads neither the current
  request nor the process, and returns the string literal.
\<close>

definition home_route :: view_func where
  "home_route r w = (Inr (Str ''Hello World !''), w)"

text \<open>
  The module body, lines 4 to 9, with the imported factory as a parameter: the factory is
  called with no argument, and the decorator registers \<^verbatim>\<open>home_route\<close> for the path
  \<^verbatim>\<open>/\<close> on the object it returned. The result is the object bound to the global
  \<^verbatim>\<open>flask_app\<close> once the module is loaded; an exception of the factory or of the
  registration ends the loading.
\<close>

definition flask_app :: "(unit \<Rightarrow> app action) \<Rightarrow> app action" where
  "flask_app factory w =
     (case factory () w of
        (Inl e, w') \<Rightarrow> (Inl e, w')
      | (Inr a, w') \<Rightarrow> (route a ''/'' (''home_route'', home_route), w'))"

text \<open>
  \<open>n\<close> successive calls of the same code in one process: each call starts in the process
  state the call before it left.
\<close>

fun repeat_call :: "nat \<Rightarrow> 'a action \<Rightarrow> process \<Rightarrow> (py_error + 'a) list \<times> process" where
  "repeat_call 0 f w = ([], w)"
| "repeat_call (Suc n) f w =
     (case f w of (x, w') \<Rightarrow> (case repeat_call n f w' of (xs, w'') \<Rightarrow> (x # xs, w'')))"

section \<open>The loaded application\<close>

text \<open>
  The rule that the decorator adds, and the application object that loading the module
  yields with the factory above: one rule, for the path \<^verbatim>\<open>/\<close>, accepting GET, HEAD and
  OPTIONS, and one view function, \<^verbatim>\<open>home_route\<close>. Both are names for values only; the
  lemma \<open>flask_app_loaded\<close> derives them from the module.
\<close>

abbreviation root_rule :: url_rule where
  "root_rule \<equiv>
     \<lparr>pattern = ''/'', methods = {''HEAD'', ''OPTIONS'', ''GET''},
      endpoint = ''home_route'', provide_automatic_options = True\<rparr>"

abbreviation served_app :: app where
  "served_app \<equiv>
     \<lparr>url_map = [root_rule], view_functions = [''home_route'' \<mapsto> home_route]\<rparr>"

lemma flask_app_loaded: "flask_app create_app w = (Inr served_app, w)"
  by (simp add: flask_app_def create_app_def route_def add_url_rule_def Rule_def Let_def)

text \<open>The normalised path is \<^verbatim>\<open>/\<close> exactly for a path of one or more slashes.\<close>

lemma path_part_root: "path_part p = ''/'' \<longleftrightarrow> set p = {CHR ''/''}"
proof (cases p)
  case Nil
  then show ?thesis by (simp add: path_part_def)
next
  case (Cons c cs)
  then have "path_part p = ''/'' \<longleftrightarrow> (\<forall>x\<in>set p. x = CHR ''/'')"
    by (simp add: path_part_def del: dropWhile.simps)
  also have "\<dots> \<longleftrightarrow> set p = {CHR ''/''}"
    using Cons by auto
  finally show ?thesis .
qed

text \<open>
  A normalised path is empty (for the empty path only), or \<^verbatim>\<open>/\<close>, or a slash followed by
  something that does not start with a slash.
\<close>

lemma path_part_cases:
  "p = [] \<and> path_part p = [] \<or> path_part p = ''/'' \<or>
   (\<exists>c cs. path_part p = CHR ''/'' # c # cs \<and> c \<noteq> CHR ''/'')"
proof (cases "p = []")
  case True
  then show ?thesis by (simp add: path_part_def)
next
  case False
  show ?thesis
  proof (cases "dropWhile (\<lambda>c. c = CHR ''/'') p")
    case Nil
    with False show ?thesis by (simp add: path_part_def)
  next
    case (Cons c cs)
    have "\<not> (hd (dropWhile (\<lambda>c. c = CHR ''/'') p) = CHR ''/'')"
      using Cons hd_dropWhile [of "\<lambda>c. c = CHR ''/''" p] by simp
    with Cons have "c \<noteq> CHR ''/''" by simp
    with Cons False show ?thesis by (simp add: path_part_def)
  qed
qed

text \<open>Merging slashes empties no path, and keeps such a path longer than \<^verbatim>\<open>/\<close>.\<close>

lemma merge_slashes_Nil: "merge_slashes xs = [] \<longleftrightarrow> xs = []"
  by (induction xs rule: merge_slashes.induct) auto

lemma merge_slashes_longer:
  assumes "c \<noteq> CHR ''/''"
  shows "\<exists>d ds. merge_slashes (CHR ''/'' # c # cs) = CHR ''/'' # d # ds"
proof -
  have "merge_slashes (c # cs) \<noteq> []"
    by (simp add: merge_slashes_Nil)
  then obtain d ds where "merge_slashes (c # cs) = d # ds"
    by (cases "merge_slashes (c # cs)") auto
  with assms show ?thesis by simp
qed

text \<open>
  The router on the loaded URL map, for every path and method: the rule is found for a
  path of slashes and one of its methods; the empty path is redirected to \<^verbatim>\<open>/\<close> for
  those methods; everything else is not found, and neither pass of the matcher changes
  that.
\<close>

lemma match_root_rule:
  "match_rules [root_rule] path_info m =
     (if path_part path_info = ''/''
      then (if m \<in> {''HEAD'', ''OPTIONS'', ''GET''} then Inr root_rule else Inl MethodNotAllowed)
      else if path_info = [] \<and> m \<in> {''HEAD'', ''OPTIONS'', ''GET''}
      then Inl (RequestRedirect ''/'')
      else Inl NotFound)"
proof -
  consider (empty) "path_info = []" "path_part path_info = []"
    | (root) "path_part path_info = ''/''"
    | (other) c cs where "path_part path_info = CHR ''/'' # c # cs" "c \<noteq> CHR ''/''"
    using path_part_cases [of path_info] by blast
  then show ?thesis
  proof cases
    case empty
    then show ?thesis
      by (simp add: match_rules_def match_path_def)
  next
    case root
    then have "path_info \<noteq> []"
      by (auto simp add: path_part_def)
    with root show ?thesis
      by (simp add: match_rules_def match_path_def)
  next
    case other
    then obtain d ds where merged: "merge_slashes (CHR ''/'' # c # cs) = CHR ''/'' # d # ds"
      using merge_slashes_longer by blast
    from other have "path_info \<noteq> []"
      by (auto simp add: path_part_def)
    with other merged show ?thesis
      by (simp add: match_rules_def match_path_def del: merge_slashes.simps)
  qed
qed

text \<open>What the loaded application decides to do with a request.\<close>

lemma served_target:
  "dispatch_target served_app r =
     (if set (path r) = {CHR ''/''}
      then (if request_method r = ''OPTIONS'' then Automatic_options
            else if request_method r = ''GET'' \<or> request_method r = ''HEAD''
            then View ''home_route''
            else Routing_exception MethodNotAllowed)
      else if path r = [] \<and> request_method r \<in> {''HEAD'', ''OPTIONS'', ''GET''}
      then Routing_exception (RequestRedirect ''/'')
      else Routing_exception NotFound)"
  by (auto simp add: dispatch_target_def match_request_def match_root_rule path_part_root)

lemma served_target_root:
  assumes "path r = ''/''" and "request_method r = ''GET'' \<or> request_method r = ''HEAD''"
  shows "dispatch_target served_app r = View ''home_route''"
  using assms by (auto simp add: served_target)


text \<open>What the loaded application answers when it calls the view function.\<close>

lemma served_response:
  assumes "dispatch_target served_app r = View ''home_route''"
  shows "full_dispatch_request served_app r w = (Inr (Response 200 ''Hello World !''), w)"
  using assms
  by (simp add: full_dispatch_request_def dispatch_request_def home_route_def make_response_def)

section \<open>The Root Handler\<close>

text \<open>
  Claim C1. Every GET request to the path \<^verbatim>\<open>/\<close> is dispatched by the loaded application
  to the Root Handler, and the body of the response is the literal \<^verbatim>\<open>Hello World !\<close>,
  thirteen bytes with the space before the exclamation mark, whatever the rest of the
  request and the state of the process are.
\<close>

theorem root_body_hello_world:
  "flask_app create_app w = (Inr served_app, w) \<and>
   (\<forall>r w'. request_method r = ''GET'' \<and> path r = ''/'' \<longrightarrow>
      dispatch_target served_app r = View ''home_route'' \<and>
      (\<exists>resp. fst (full_dispatch_request served_app r w') = Inr resp \<and>
         data resp = ''Hello World !'' \<and> length (data resp) = 13))"
proof (intro conjI allI impI)
  show "flask_app create_app w = (Inr served_app, w)"
    by (rule flask_app_loaded)
next
  fix r :: request and w' :: process
  assume get_root: "request_method r = ''GET'' \<and> path r = ''/''"
  then show "dispatch_target served_app r = View ''home_route''"
    by (simp add: served_target_root)
  then have "full_dispatch_request served_app r w' = (Inr (Response 200 ''Hello World !''), w')"
    by (rule served_response)
  then show "\<exists>resp. fst (full_dispatch_request served_app r w') = Inr resp \<and>
      data resp = ''Hello World !'' \<and> length (data resp) = 13"
    by simp
qed

theorem root_body_hello_world_witness:
  "flask_app create_app \<lparr>environ = Map.empty, argv = [''flask'', ''run''], files = Map.empty\<rparr> =
     (Inr served_app, \<lparr>environ = Map.empty, argv = [''flask'', ''run''], files = Map.empty\<rparr>) \<and>
   fst (full_dispatch_request served_app
          \<lparr>request_method = ''GET'', path = ''/'', query_string = ''lang=en'',
           headers = [(''Accept'', ''text/html'')], body = []\<rparr>
          \<lparr>environ = Map.empty, argv = [''flask'', ''run''], files = Map.empty\<rparr>) =
     Inr (Response 200 ''Hello World !'')"
  using root_body_hello_world
    [of "\<lparr>environ = Map.empty, argv = [''flask'', ''run''], files = Map.empty\<rparr>"]
  by (simp add: full_dispatch_request_def dispatch_request_def served_target
      home_route_def make_response_def)

text \<open>
  Claim C2. For every GET request to the path \<^verbatim>\<open>/\<close> the loaded application returns a
  response, and its status code is exactly 200.
\<close>

theorem root_status_200:
  "flask_app create_app w = (Inr served_app, w) \<and>
   (\<forall>r w'. request_method r = ''GET'' \<and> path r = ''/'' \<longrightarrow>
      (\<exists>resp. fst (full_dispatch_request served_app r w') = Inr resp \<and> status_code resp = 200))"
proof -
  have "\<exists>resp. fst (full_dispatch_request served_app r w') = Inr resp \<and> status_code resp = 200"
    if "request_method r = ''GET'' \<and> path r = ''/''" for r w'
  proof -
    from that have "dispatch_target served_app r = View ''home_route''"
      by (simp add: served_target_root)
    then show ?thesis
      by (simp add: served_response)
  qed
  then show ?thesis
    by (simp add: flask_app_loaded)
qed

theorem root_status_200_witness:
  "flask_app create_app \<lparr>environ = [''HOME'' \<mapsto> ''/root''], argv = [], files = Map.empty\<rparr> =
     (Inr served_app, \<lparr>environ = [''HOME'' \<mapsto> ''/root''], argv = [], files = Map.empty\<rparr>) \<and>
   (\<exists>resp. fst (full_dispatch_request served_app
          \<lparr>request_method = ''GET'', path = ''/'', query_string = [], headers = [], body = []\<rparr>
          \<lparr>environ = [''HOME'' \<mapsto> ''/root''], argv = [], files = Map.empty\<rparr>) = Inr resp \<and>
      status_code resp = 200)"
  using root_status_200
    [of "\<lparr>environ = [''HOME'' \<mapsto> ''/root''], argv = [], files = Map.empty\<rparr>"]
  by simp

text \<open>
  Claim C3. \<open>n\<close> successive invocations of the Root Handler with the same request, each
  starting in the process state its predecessor left, return the same string \<open>n\<close> times
  and leave the process as it was before the first: nothing accumulates between
  invocations.
\<close>

theorem home_route_repeatable:
  "repeat_call n (home_route r) w = (replicate n (Inr (Str ''Hello World !'')), w)"
proof (induction n)
  case 0
  show ?case by simp
next
  case (Suc n)
  have "home_route r w = (Inr (Str ''Hello World !''), w)"
    by (simp add: home_route_def)
  with Suc show ?case by simp
qed

text \<open>
  Claim C4. The Root Handler cannot fail and has no side effect: for every request and
  every process state it returns a value (it raises nothing) and the process state after
  the call is the state before it. The same holds one level up: whenever the loaded
  application dispatches a request to the Root Handler, serving the request yields a
  response, not an exception, and leaves the process unchanged.
\<close>

theorem home_route_cannot_fail:
  "(\<exists>v. fst (home_route r w) = Inr v) \<and> snd (home_route r w) = w \<and>
   flask_app create_app w0 = (Inr served_app, w0) \<and>
   (\<forall>r' w'. dispatch_target served_app r' = View ''home_route'' \<longrightarrow>
      (\<exists>resp. full_dispatch_request served_app r' w' = (Inr resp, w')))"
  by (simp add: home_route_def flask_app_loaded served_response)

theorem home_route_cannot_fail_witness:
  "dispatch_target served_app
     \<lparr>request_method = ''GET'', path = ''/'', query_string = [], headers = [], body = ''x''\<rparr> =
     View ''home_route'' \<and>
   (\<exists>resp. full_dispatch_request served_app
      \<lparr>request_method = ''GET'', path = ''/'', query_string = [], headers = [], body = ''x''\<rparr>
      \<lparr>environ = Map.empty, argv = [], files = [''config.ini'' \<mapsto> ''debug=1'']\<rparr> =
      (Inr resp, \<lparr>environ = Map.empty, argv = [], files = [''config.ini'' \<mapsto> ''debug=1'']\<rparr>))"
proof -
  have target: "dispatch_target served_app
     \<lparr>request_method = ''GET'', path = ''/'', query_string = [], headers = [], body = ''x''\<rparr> =
     View ''home_route''"
    by (simp add: served_target)
  with home_route_cannot_fail show ?thesis
    by blast
qed

section \<open>Which requests reach the Root Handler\<close>







text \<open>
  Claim C10. The Root Handler reads nothing of the request: its return value is the same
  for any two requests in any two process states. Hence any two requests that the loaded
  application dispatches to it get the same response, whatever their headers, query
  strings and bodies are.
\<close>

theorem home_route_ignores_request:
  "fst (home_route r1 w1) = fst (home_route r2 w2) \<and>
   flask_app create_app w = (Inr served_app, w) \<and>
   (\<forall>r r' w'.
      dispatch_target served_app r = View ''home_route'' \<and>
      dispatch_target served_app r' = View ''home_route'' \<longrightarrow>
      fst (full_dispatch_request served_app r w') = fst (full_dispatch_request served_app r' w'))"
  by (simp add: home_route_def flask_app_loaded served_response)

theorem home_route_ignores_request_witness:
  "fst (full_dispatch_request served_app
          \<lparr>request_method = ''GET'', path = ''/'', query_string = ''name=Ada&debug=1'',
           headers = [(''Cookie'', ''session=42''), (''User-Agent'', ''curl'')],
           body = ''payload''\<rparr>
          \<lparr>environ = Map.empty, argv = [], files = Map.empty\<rparr>) =
   fst (full_dispatch_request served_app
          \<lparr>request_method = ''GET'', path = ''/'', query_string = [], headers = [], body = []\<rparr>
          \<lparr>environ = Map.empty, argv = [], files = Map.empty\<rparr>)"
proof -
  have "dispatch_target served_app
          \<lparr>request_method = ''GET'', path = ''/'', query_string = ''name=Ada&debug=1'',
           headers = [(''Cookie'', ''session=42''), (''User-Agent'', ''curl'')],
           body = ''payload''\<rparr> = View ''home_route''"
    by (simp add: served_target)
  moreover have "dispatch_target served_app
          \<lparr>request_method = ''GET'', path = ''/'', query_string = [], headers = [], body = []\<rparr> =
        View ''home_route''"
    by (simp add: served_target)
  ultimately show ?thesis
    using home_route_ignores_request by blast
qed

section \<open>The App Factory and the loading of the module\<close>

text \<open>
  Claim C6. The factory is called with no argument, and calling it leaves the process as
  it was. The module calls it exactly once when it is loaded: for every factory, also one
  that changes the process, the process after loading is the process after one call of
  the factory, and the loaded object is the object that call returned with the route
  registered on it. A factory that appends a mark to the command line at each call
  leaves exactly one mark.
\<close>

theorem create_app_called_once:
  "snd (create_app () w) = w \<and>
   snd (flask_app factory w') = snd (factory () w') \<and>
   fst (flask_app factory w') =
     (case fst (factory () w') of
        Inl e \<Rightarrow> Inl e
      | Inr a \<Rightarrow> route a ''/'' (''home_route'', home_route)) \<and>
   argv (snd (flask_app (\<lambda>u p. (Inr a0, p\<lparr>argv := argv p @ [''create_app'']\<rparr>)) w')) =
     argv w' @ [''create_app'']"
proof -
  have effect: "snd (flask_app f p) = snd (f () p)" for f p
    by (cases "f () p") (simp add: flask_app_def split: sum.split)
  have result: "fst (flask_app factory w') =
     (case fst (factory () w') of
        Inl e \<Rightarrow> Inl e
      | Inr a \<Rightarrow> route a ''/'' (''home_route'', home_route))"
    by (cases "factory () w'") (simp add: flask_app_def split: sum.split)
  show ?thesis
    using result by (simp add: effect create_app_def)
qed

text \<open>
  Claim C7. Called with no argument, the factory returns an application object and
  raises nothing, at every call: \<open>n\<close> successive calls in one process give \<open>n\<close>
  application objects and no exception, and the process is as before.
\<close>

theorem create_app_returns_app:
  "repeat_call n (create_app ()) w =
     (replicate n (Inr \<lparr>url_map = [], view_functions = Map.empty\<rparr>), w)"
proof (induction n)
  case 0
  show ?case by simp
next
  case (Suc n)
  have "create_app () w = (Inr \<lparr>url_map = [], view_functions = Map.empty\<rparr>, w)"
    by (simp add: create_app_def)
  with Suc show ?case by simp
qed

text \<open>
  Claim C8. Producing the application instance consumes nothing from the environment:
  the factory returns the same object in any two process states (whatever the
  environment variables, the command line and the files are), and so does loading the
  module. The module body itself reads nothing of the process: with any factory whose
  result is the same in two process states, the loaded object is the same in both.
\<close>

theorem create_app_ignores_environment:
  "fst (create_app () w1) = fst (create_app () w2) \<and>
   fst (flask_app create_app w1) = fst (flask_app create_app w2) \<and>
   (\<exists>a. fst (flask_app create_app w1) = Inr a) \<and>
   (fst (factory () w1) = fst (factory () w2) \<longrightarrow>
      fst (flask_app factory w1) = fst (flask_app factory w2))"
proof -
  have result: "fst (flask_app f p) =
     (case fst (f () p) of
        Inl e \<Rightarrow> Inl e
      | Inr a \<Rightarrow> route a ''/'' (''home_route'', home_route))" for f p
    by (cases "f () p") (simp add: flask_app_def split: sum.split)
  have "fst (flask_app factory w1) = fst (flask_app factory w2)"
    if "fst (factory () w1) = fst (factory () w2)"
    using that by (simp add: result)
  then show ?thesis
    by (simp add: flask_app_loaded create_app_def)
qed

theorem create_app_ignores_environment_witness:
  "fst (create_app ()
          \<lparr>environ = [''FLASK_DEBUG'' \<mapsto> ''1''], argv = [''flask'', ''run'', ''--port'', ''8000''],
           files = [''config.py'' \<mapsto> ''DEBUG = True'']\<rparr>) =
   fst (create_app () \<lparr>environ = Map.empty, argv = [], files = Map.empty\<rparr>) \<and>
   fst (flask_app create_app
          \<lparr>environ = [''FLASK_DEBUG'' \<mapsto> ''1''], argv = [''flask'', ''run'', ''--port'', ''8000''],
           files = [''config.py'' \<mapsto> ''DEBUG = True'']\<rparr>) =
   fst (flask_app create_app \<lparr>environ = Map.empty, argv = [], files = Map.empty\<rparr>)"
  using create_app_ignores_environment
    [of "\<lparr>environ = [''FLASK_DEBUG'' \<mapsto> ''1''], argv = [''flask'', ''run'', ''--port'', ''8000''],
           files = [''config.py'' \<mapsto> ''DEBUG = True'']\<rparr>"
        "\<lparr>environ = Map.empty, argv = [], files = Map.empty\<rparr>" create_app]
  by blast

end
